theory Spec2Isabelle
  imports Complex_Main
begin

section \<open>The ControlNet web API (scripts/api.py)\<close>

text \<open>
  The module is glue: two encoding helpers and the request handlers that the host web
  application mounts. Everything a handler calls outside this file (the preprocessor
  registry of \<open>global_state\<close>, \<open>external_code\<close>, Pillow, torch, the host's \<open>modules.api\<close>, the
  pose drawing routines of \<open>annotator.openpose\<close>) is a collaborator. The collaborators are
  the fields of the record \<open>env\<close>; each one that is a Python call returns either the name
  of the exception it raised or its value.
\<close>

subsection \<open>Python values, exceptions, effects\<close>

text \<open>
  The objects that flow through the handlers. Images, arrays and tensors are opaque
  here: the number identifies the object. \<open>isinstance\<close> tests of the source are tests on
  the constructor.
\<close>

datatype pyobj =
    PyNone
  | PyStr string
  | PILImage nat
  | NDArray nat
  | Tensor nat
  | PyDict "(string \<times> pyobj) list"
  | PyObject nat

text \<open>
  What a handler can end with instead of a value. \<open>HTTPException\<close> and \<open>AssertionError\<close>
  are raised by statements of api.py itself; \<open>KeyError\<close> and \<open>UnboundLocalError\<close> are what
  Python raises at a missing dictionary key and at a local variable read before its
  first assignment. \<open>Propagated e\<close> is an exception \<open>e\<close> raised inside a collaborator:
  api.py has no \<open>try\<close> around any of these calls, so it leaves the handler unchanged.
  The \<open>assert\<close> statements are taken as enabled (Python run without \<open>-O\<close>).
\<close>

datatype exn =
    HTTPException nat string
  | AssertionError
  | KeyError
  | UnboundLocalError
  | Propagated string

definition call :: "string + 'a \<Rightarrow> exn + 'a" where
  "call r = (case r of Inl e \<Rightarrow> Inl (Propagated e) | Inr v \<Rightarrow> Inr v)"

text \<open>\<open>ControlNetUnit\<close>, with the four fields the detect handler sets.\<close>

record ControlNetUnit =
  module :: string
  processor_res :: int
  threshold_a :: real
  threshold_b :: real

text \<open>
  The effects of a handler on its collaborators, in the order they happen. Every
  function below that has an effect returns the list of events it produced next to its
  result.
\<close>

datatype event =
    LogInfo nat string
  | NewUnit ControlNetUnit
  | BoundCheck ControlNetUnit
  | ToNparray string
  | Invoke string pyobj
  | Unload string
  | DrawPoses "pyobj list" int int
  | DrawAnimalposes "pyobj list" int int

text \<open>
  A preprocessor: called with the image, the resolution, the two thresholds and the
  low-vram flag, it raises or returns the detected map, the \<open>is_image\<close> flag and the
  arguments it passed to \<open>json_pose_callback\<close>, in the order of its calls.
\<close>

type_synonym detector =
  "pyobj \<Rightarrow> int \<Rightarrow> real \<Rightarrow> real \<Rightarrow> bool \<Rightarrow> string + (pyobj \<times> bool \<times> pyobj list)"

text \<open>The request body of \<open>render_openpose_json\<close> (pydantic models of the source).\<close>

record Person =
  pose_keypoints_2d :: "real list"
  hand_right_keypoints_2d :: "real list option"
  hand_left_keypoints_2d :: "real list option"
  face_keypoints_2d :: "real list option"

record PoseData =
  people :: "Person list"
  canvas_width :: int
  canvas_height :: int

text \<open>
  The collaborators. \<open>cn_preprocessor_unloadable\<close> maps a module name to what calling its
  unload hook does: raise or return. \<open>decode_json_as_poses\<close> stands for \<open>pose.dict()\<close>
  followed by the decoder, and returns \<open>(poses, animals, H, W)\<close>.
\<close>

record env =
  reverse_preprocessor_aliases :: "string \<rightharpoonup> string"
  cached_cn_preprocessors :: "string \<rightharpoonup> detector"
  cn_preprocessor_unloadable :: "string \<rightharpoonup> (string + unit)"
  bound_check_params :: "ControlNetUnit \<Rightarrow> string + ControlNetUnit"
  to_base64_nparray :: "string \<Rightarrow> string + pyobj"
  Image_fromarray :: "nat \<Rightarrow> string + nat"
  encode_pil_to_base64 :: "nat \<Rightarrow> string + string"
  torch_save :: "pyobj \<Rightarrow> string + nat list"
  b64encode :: "nat list \<Rightarrow> string"
  decode_json_as_poses :: "PoseData \<Rightarrow> string + (pyobj list \<times> pyobj list \<times> int \<times> int)"
  draw_poses :: "pyobj list \<Rightarrow> int \<Rightarrow> int \<Rightarrow> string + pyobj"
  draw_animalposes :: "pyobj list \<Rightarrow> int \<Rightarrow> int \<Rightarrow> string + pyobj"

text \<open>A JSON response body: the keys in the order the handler sets them.\<close>

datatype jval = JStr string | JStrs "string list" | JObjs "pyobj list"

type_synonym response = "(string \<times> jval) list"

subsection \<open>Encoding helpers\<close>

definition encode_np_to_base64 :: "env \<Rightarrow> nat \<Rightarrow> exn + string" where
  "encode_np_to_base64 E img =
     (case call (Image_fromarray E img) of
        Inl e \<Rightarrow> Inl e
      | Inr pil \<Rightarrow> call (encode_pil_to_base64 E pil))"

fun encode_to_base64 :: "env \<Rightarrow> pyobj \<Rightarrow> exn + string" where
  "encode_to_base64 E (PyStr img) = Inr img"
| "encode_to_base64 E (PILImage img) = call (encode_pil_to_base64 E img)"
| "encode_to_base64 E (NDArray img) = encode_np_to_base64 E img"
| "encode_to_base64 E _ = Inr ''''"

text \<open>
  \<open>torch.save\<close> writes into a fresh buffer; \<open>getvalue\<close> returns all of it, wherever the
  position is, so \<open>seek(0)\<close> does not show in the result.
\<close>

definition encode_tensor_to_base64 :: "env \<Rightarrow> pyobj \<Rightarrow> exn + string" where
  "encode_tensor_to_base64 E obj =
     (case call (torch_save E obj) of
        Inl e \<Rightarrow> Inl e
      | Inr buffer \<Rightarrow> Inr (b64encode E buffer))"

text \<open>A list comprehension over a call that may raise: the first exception ends it.\<close>

fun comprehension :: "('a \<Rightarrow> exn + 'b) \<Rightarrow> 'a list \<Rightarrow> exn + 'b list" where
  "comprehension f [] = Inr []"
| "comprehension f (x # xs) =
     (case f x of
        Inl e \<Rightarrow> Inl e
      | Inr y \<Rightarrow> (case comprehension f xs of Inl e \<Rightarrow> Inl e | Inr ys \<Rightarrow> Inr (y # ys)))"

subsection \<open>The detect handler\<close>

text \<open>Python's \<open>sub in s\<close> on strings.\<close>

fun startswith :: "string \<Rightarrow> string \<Rightarrow> bool" where
  "startswith s [] = True"
| "startswith [] (c # sub) = False"
| "startswith (d # s) (c # sub) = (d = c \<and> startswith s sub)"

fun str_contains :: "string \<Rightarrow> string \<Rightarrow> bool" where
  "str_contains sub [] = (sub = [])"
| "str_contains sub (c # s) = (startswith (c # s) sub \<or> str_contains sub s)"

text \<open>The class \<open>JsonAcceptor\<close> of the loop body: one field, set by \<open>accept\<close>.\<close>

record JsonAcceptor =
  acceptor_value :: pyobj

definition JsonAcceptor_init :: JsonAcceptor where
  "JsonAcceptor_init = \<lparr>acceptor_value = PyNone\<rparr>"

definition accept :: "JsonAcceptor \<Rightarrow> pyobj \<Rightarrow> JsonAcceptor" where
  "accept self json_dict = self\<lparr>acceptor_value := json_dict\<rparr>"

text \<open>
  Lines 145 to 162: one input image is decoded and handed to the preprocessor with a new
  acceptor. The value is the detected map, the flag and the acceptor's value after the
  call.
\<close>

definition detect_image ::
  "env \<Rightarrow> string \<Rightarrow> detector \<Rightarrow> ControlNetUnit \<Rightarrow> bool \<Rightarrow> string
     \<Rightarrow> (exn + (pyobj \<times> bool \<times> pyobj)) \<times> event list" where
  "detect_image E controlnet_module processor_module unit low_vram input_image =
     (case to_base64_nparray E input_image of
        Inl e \<Rightarrow> (Inl (Propagated e), [ToNparray input_image])
      | Inr img \<Rightarrow>
          (case processor_module img (processor_res unit) (threshold_a unit)
                  (threshold_b unit) low_vram of
             Inl e \<Rightarrow> (Inl (Propagated e), [ToNparray input_image, Invoke controlnet_module img])
           | Inr (detected_map, is_image, calls) \<Rightarrow>
               (Inr (detected_map, is_image,
                     acceptor_value (foldl accept JsonAcceptor_init calls)),
                [ToNparray input_image, Invoke controlnet_module img])))"

text \<open>
  The loop of lines 144 to 167 over the input images still to process, from the values
  of \<open>results\<close>, \<open>poses\<close> and \<open>is_image\<close> so far (\<open>None\<close>: not assigned yet).
\<close>

fun detect_loop ::
  "env \<Rightarrow> string \<Rightarrow> detector \<Rightarrow> ControlNetUnit \<Rightarrow> bool \<Rightarrow> string list
     \<Rightarrow> pyobj list \<Rightarrow> pyobj list \<Rightarrow> bool option
     \<Rightarrow> (exn + (pyobj list \<times> pyobj list \<times> bool option)) \<times> event list" where
  "detect_loop E m pm unit lv [] results poses is_image = (Inr (results, poses, is_image), [])"
| "detect_loop E m pm unit lv (input_image # rest) results poses is_image =
     (case detect_image E m pm unit lv input_image of
        (Inl e, evs) \<Rightarrow> (Inl e, evs)
      | (Inr (detected_map, flag, json_value), evs) \<Rightarrow>
          if str_contains ''openpose'' m then
            if json_value = PyNone then (Inl AssertionError, evs)
            else
              (case detect_loop E m pm unit lv rest (results @ [detected_map])
                      (poses @ [json_value]) (Some flag) of
                 (r, evs') \<Rightarrow> (r, evs @ evs'))
          else
            (case detect_loop E m pm unit lv rest (results @ [detected_map]) poses (Some flag) of
               (r, evs') \<Rightarrow> (r, evs @ evs')))"

text \<open>Line 169: the unload hook of the registry, or the do-nothing default.\<close>

definition unload :: "env \<Rightarrow> string \<Rightarrow> (exn + unit) \<times> event list" where
  "unload E controlnet_module =
     (case cn_preprocessor_unloadable E controlnet_module of
        None \<Rightarrow> (Inr (), [])
      | Some hook \<Rightarrow> (call hook, [Unload controlnet_module]))"

text \<open>Lines 170 to 177: the response, from the loop's variables.\<close>

definition detect_response ::
  "env \<Rightarrow> pyobj list \<Rightarrow> pyobj list \<Rightarrow> bool option \<Rightarrow> exn + response" where
  "detect_response E results poses is_image =
     (case is_image of
        None \<Rightarrow> Inl UnboundLocalError
      | Some True \<Rightarrow>
          (case comprehension (encode_to_base64 E) results of
             Inl e \<Rightarrow> Inl e
           | Inr images \<Rightarrow>
               Inr ([(''info'', JStr ''Success''), (''images'', JStrs images)]
                    @ (if poses \<noteq> [] then [(''poses'', JObjs poses)] else [])))
      | Some False \<Rightarrow>
          (case comprehension (encode_tensor_to_base64 E) results of
             Inl e \<Rightarrow> Inl e
           | Inr tensors \<Rightarrow> Inr [(''info'', JStr ''Success''), (''tensor'', JStrs tensors)]))"

record detect_request =
  controlnet_module :: string
  controlnet_input_images :: "string list"
  controlnet_processor_res :: int
  controlnet_threshold_a :: real
  controlnet_threshold_b :: real
  low_vram :: bool

text \<open>Lines 114 to 116: the module name after alias resolution.\<close>

definition resolved_module :: "env \<Rightarrow> detect_request \<Rightarrow> string" where
  "resolved_module E req =
     (case reverse_preprocessor_aliases E (controlnet_module req) of
        None \<Rightarrow> controlnet_module req
      | Some name \<Rightarrow> name)"

definition unsupported_modules :: "string list" where
  "unsupported_modules = [''clip_vision'', ''revision_clipvision'', ''revision_ignore_prompt'']"

text \<open>Lines 131 to 136: the parameter object, before its bounds are checked.\<close>

definition make_unit :: "string \<Rightarrow> detect_request \<Rightarrow> ControlNetUnit" where
  "make_unit m req =
     \<lparr>module = m,
      processor_res = controlnet_processor_res req,
      threshold_a = controlnet_threshold_a req,
      threshold_b = controlnet_threshold_b req\<rparr>"

text \<open>Lines 127 to 137: the log line, the parameter object and its bound check.\<close>

definition prepare_events :: "string \<Rightarrow> detect_request \<Rightarrow> event list" where
  "prepare_events m req =
     [LogInfo (length (controlnet_input_images req)) m, NewUnit (make_unit m req),
      BoundCheck (make_unit m req)]"

text \<open>Lines 127 to 177: what the handler does once the three checks have passed.\<close>

definition detect_run ::
  "env \<Rightarrow> string \<Rightarrow> detect_request \<Rightarrow> (exn + response) \<times> event list" where
  "detect_run E m req =
     (case bound_check_params E (make_unit m req) of
        Inl e \<Rightarrow> (Inl (Propagated e), prepare_events m req)
      | Inr unit \<Rightarrow>
          (case cached_cn_preprocessors E m of
             None \<Rightarrow> (Inl KeyError, prepare_events m req)
           | Some processor_module \<Rightarrow>
               (case detect_loop E m processor_module unit (low_vram req)
                       (controlnet_input_images req) [] [] None of
                  (Inl e, evs1) \<Rightarrow> (Inl e, prepare_events m req @ evs1)
                | (Inr (results, poses, is_image), evs1) \<Rightarrow>
                    (case unload E m of
                       (Inl e, evs2) \<Rightarrow> (Inl e, prepare_events m req @ evs1 @ evs2)
                     | (Inr _, evs2) \<Rightarrow>
                         (detect_response E results poses is_image,
                          prepare_events m req @ evs1 @ evs2)))))"

definition detect :: "env \<Rightarrow> detect_request \<Rightarrow> (exn + response) \<times> event list" where
  "detect E req =
     (let m = resolved_module E req in
      if cached_cn_preprocessors E m = None then
        (Inl (HTTPException 422 ''Module not available''), [])
      else if m \<in> set unsupported_modules then
        (Inl (HTTPException 422 ''Module not supported''), [])
      else if length (controlnet_input_images req) = 0 then
        (Inl (HTTPException 422 ''No image selected''), [])
      else detect_run E m req)"

subsection \<open>The render_openpose_json handler\<close>

text \<open>The local function \<open>draw\<close> of lines 199 to 204.\<close>

definition draw ::
  "env \<Rightarrow> pyobj list \<Rightarrow> pyobj list \<Rightarrow> int \<Rightarrow> int \<Rightarrow> (exn + pyobj) \<times> event list" where
  "draw E poses animals H W =
     (if poses \<noteq> [] then
        if length animals = 0 then (call (draw_poses E poses H W), [DrawPoses poses H W])
        else (Inl AssertionError, [])
      else (call (draw_animalposes E animals H W), [DrawAnimalposes animals H W]))"

text \<open>One element of the list comprehension of lines 207 to 210.\<close>

definition render_pose :: "env \<Rightarrow> PoseData \<Rightarrow> (exn + string) \<times> event list" where
  "render_pose E pose =
     (case decode_json_as_poses E pose of
        Inl e \<Rightarrow> (Inl (Propagated e), [])
      | Inr (poses, animals, H, W) \<Rightarrow>
          (case draw E poses animals H W of
             (Inl e, evs) \<Rightarrow> (Inl e, evs)
           | (Inr canvas, evs) \<Rightarrow> (encode_to_base64 E canvas, evs)))"

fun render_poses :: "env \<Rightarrow> PoseData list \<Rightarrow> (exn + string list) \<times> event list" where
  "render_poses E [] = (Inr [], [])"
| "render_poses E (pose # rest) =
     (case render_pose E pose of
        (Inl e, evs) \<Rightarrow> (Inl e, evs)
      | (Inr img, evs) \<Rightarrow>
          (case render_poses E rest of
             (Inl e, evs') \<Rightarrow> (Inl e, evs @ evs')
           | (Inr images, evs') \<Rightarrow> (Inr (img # images), evs @ evs')))"

definition render_openpose_json :: "env \<Rightarrow> PoseData list \<Rightarrow> (exn + response) \<times> event list" where
  "render_openpose_json E pose_data =
     (if pose_data = [] then (Inr [(''info'', JStr ''No pose data detected.'')], [])
      else
        (case render_poses E pose_data of
           (Inl e, evs) \<Rightarrow> (Inl e, evs)
         | (Inr images, evs) \<Rightarrow>
             (Inr [(''images'', JStrs images), (''info'', JStr ''Success'')], evs)))"

subsection \<open>Notions the properties are stated with\<close>

text \<open>The preprocessor invocations among the events: module name and image, in order.\<close>

fun invoked :: "event list \<Rightarrow> (string \<times> pyobj) list" where
  "invoked [] = []"
| "invoked (Invoke m img # evs) = (m, img) # invoked evs"
| "invoked (_ # evs) = invoked evs"

text \<open>The calls of the two drawing routines among the events.\<close>

fun drawn :: "event list \<Rightarrow> event list" where
  "drawn [] = []"
| "drawn (DrawPoses ps H W # evs) = DrawPoses ps H W # drawn evs"
| "drawn (DrawAnimalposes as H W # evs) = DrawAnimalposes as H W # drawn evs"
| "drawn (_ # evs) = drawn evs"

text \<open>
  A pose payload is valid when it can be rendered: the decoder accepts it, it does not
  mix human and animal poses, and the drawing routine for its kind and the image encoder
  do not raise on it.
\<close>

definition valid_pose_payload :: "env \<Rightarrow> PoseData \<Rightarrow> bool" where
  "valid_pose_payload E pose =
     (case decode_json_as_poses E pose of
        Inl e \<Rightarrow> False
      | Inr (poses, animals, H, W) \<Rightarrow>
          (poses = [] \<or> animals = []) \<and>
          (case (if poses \<noteq> [] then draw_poses E poses H W
                 else draw_animalposes E animals H W) of
             Inl e \<Rightarrow> False
           | Inr canvas \<Rightarrow>
               (case encode_to_base64 E canvas of Inl e \<Rightarrow> False | Inr s \<Rightarrow> True)))"

subsection \<open>An example registry\<close>

text \<open>
  One concrete set of collaborators, for evaluating the handlers. An encoded image
  decodes to the array numbered by its length, and the empty string is rejected. The
  array numbered 0 is one Pillow cannot turn into an image.
\<close>

definition example_to_base64_nparray :: "string \<Rightarrow> string + pyobj" where
  "example_to_base64_nparray s =
     (if s = [] then Inl ''Invalid encoded image'' else Inr (NDArray (length s)))"

definition example_fromarray :: "nat \<Rightarrow> string + nat" where
  "example_fromarray a = (if a = 0 then Inl ''TypeError'' else Inr a)"

definition example_encode_pil :: "nat \<Rightarrow> string + string" where
  "example_encode_pil i = Inr (replicate i CHR ''A'')"

definition example_torch_save :: "pyobj \<Rightarrow> string + nat list" where
  "example_torch_save obj =
     (case obj of Tensor n \<Rightarrow> Inr [1, n] | NDArray n \<Rightarrow> Inr [2, n] | _ \<Rightarrow> Inl ''PicklingError'')"

definition example_b64encode :: "nat list \<Rightarrow> string" where
  "example_b64encode bs = concat (map (\<lambda>b. replicate b CHR ''Q'' @ ''='') bs)"

definition example_bound_check :: "ControlNetUnit \<Rightarrow> string + ControlNetUnit" where
  "example_bound_check unit =
     Inr (unit\<lparr>processor_res := max 64 (min 2048 (processor_res unit))\<rparr>)"

text \<open>An edge detector: image-like output, no pose, and it fails on the array numbered 3.\<close>

definition example_canny :: detector where
  "example_canny img res thr_a thr_b lv =
     (if img = NDArray 3 then Inl ''RuntimeError'' else Inr (img, True, []))"

text \<open>A pose detector: image-like output; it finds no pose in the array numbered 3.\<close>

definition example_openpose :: detector where
  "example_openpose img res thr_a thr_b lv =
     Inr (img, True,
          if img = NDArray 3 then [] else [PyDict [(''people'', img)]])"

text \<open>A pose detector that returns tensors, and one whose flag depends on the image.\<close>

definition example_openpose_embed :: detector where
  "example_openpose_embed img res thr_a thr_b lv =
     Inr (Tensor 7, False, [PyDict [(''people'', img)]])"

definition example_mixed :: detector where
  "example_mixed img res thr_a thr_b lv = Inr (img, img = NDArray 1, [])"

text \<open>
  A payload decoder: an entry of three numbers (one keypoint) is a human pose, any other
  entry an animal pose.
\<close>

definition example_decode_json ::
  "PoseData \<Rightarrow> string + (pyobj list \<times> pyobj list \<times> int \<times> int)" where
  "example_decode_json pose =
     Inr (map (\<lambda>p. PyObject 1) (filter (\<lambda>p. length (pose_keypoints_2d p) = 3) (people pose)),
          map (\<lambda>p. PyObject 2) (filter (\<lambda>p. length (pose_keypoints_2d p) \<noteq> 3) (people pose)),
          canvas_height pose, canvas_width pose)"

definition example_draw_poses :: "pyobj list \<Rightarrow> int \<Rightarrow> int \<Rightarrow> string + pyobj" where
  "example_draw_poses poses H W = Inr (NDArray (length poses))"

definition example_draw_animalposes :: "pyobj list \<Rightarrow> int \<Rightarrow> int \<Rightarrow> string + pyobj" where
  "example_draw_animalposes animals H W = Inr (NDArray (10 + length animals))"

definition example_env :: env where
  "example_env =
     \<lparr>reverse_preprocessor_aliases = [''edges'' \<mapsto> ''canny''],
      cached_cn_preprocessors =
        [''canny'' \<mapsto> example_canny, ''openpose'' \<mapsto> example_openpose,
         ''openpose_embed'' \<mapsto> example_openpose_embed, ''mixed'' \<mapsto> example_mixed,
         ''clip_vision'' \<mapsto> example_openpose_embed],
      cn_preprocessor_unloadable = [''openpose'' \<mapsto> Inr ()],
      bound_check_params = example_bound_check,
      to_base64_nparray = example_to_base64_nparray,
      Image_fromarray = example_fromarray,
      encode_pil_to_base64 = example_encode_pil,
      torch_save = example_torch_save,
      b64encode = example_b64encode,
      decode_json_as_poses = example_decode_json,
      draw_poses = example_draw_poses,
      draw_animalposes = example_draw_animalposes\<rparr>"

definition example_request :: "string \<Rightarrow> string list \<Rightarrow> detect_request" where
  "example_request m images =
     \<lparr>controlnet_module = m, controlnet_input_images = images,
      controlnet_processor_res = -1, controlnet_threshold_a = -1,
      controlnet_threshold_b = -1, low_vram = False\<rparr>"

definition example_person :: "real list \<Rightarrow> Person" where
  "example_person keypoints =
     \<lparr>pose_keypoints_2d = keypoints, hand_right_keypoints_2d = None,
      hand_left_keypoints_2d = None, face_keypoints_2d = None\<rparr>"

definition example_pose :: "real list list \<Rightarrow> PoseData" where
  "example_pose entries =
     \<lparr>people = map example_person entries, canvas_width = 512, canvas_height = 768\<rparr>"

section \<open>Properties\<close>

subsection \<open>Unfolding the definitions\<close>

lemmas ex_defs = example_env_def example_request_def example_canny_def example_openpose_def
  example_openpose_embed_def example_mixed_def example_to_base64_nparray_def
  example_fromarray_def example_encode_pil_def example_torch_save_def example_b64encode_def
  example_bound_check_def example_decode_json_def example_draw_poses_def
  example_draw_animalposes_def example_person_def example_pose_def

lemmas api_defs = detect_def detect_run_def detect_image_def unload_def detect_response_def
  resolved_module_def unsupported_modules_def make_unit_def prepare_events_def call_def
  encode_np_to_base64_def encode_tensor_to_base64_def JsonAcceptor_init_def accept_def
  render_openpose_json_def render_pose_def draw_def Let_def

subsection \<open>The handler itself raises only in its three checks\<close>

lemma call_not_http: "call r \<noteq> Inl (HTTPException c d)"
  by (simp add: call_def split: sum.splits)

lemma encode_to_base64_not_http: "encode_to_base64 E v \<noteq> Inl (HTTPException c d)"
  by (cases v) (auto simp: encode_np_to_base64_def call_def split: sum.splits)

lemma encode_tensor_not_http: "encode_tensor_to_base64 E v \<noteq> Inl (HTTPException c d)"
  by (auto simp: encode_tensor_to_base64_def call_def split: sum.splits)

lemma comprehension_not_http:
  assumes "\<And>x. f x \<noteq> Inl (HTTPException c d)"
  shows "comprehension f xs \<noteq> Inl (HTTPException c d)"
  using assms by (induction xs) (auto split: sum.splits)

lemma detect_image_not_http:
  "detect_image E m pm u lv x \<noteq> (Inl (HTTPException c d), evs)"
  by (auto simp: detect_image_def split: sum.splits prod.splits)

lemma detect_loop_not_http:
  "detect_loop E m pm u lv xs rs ps fl \<noteq> (Inl (HTTPException c d), evs)"
proof (induction xs arbitrary: rs ps fl evs)
  case Nil
  then show ?case by auto
next
  case (Cons x xs)
  show ?case
    by (auto simp: Cons.IH detect_image_not_http split: sum.splits prod.splits if_splits)
qed

lemma detect_response_not_http: "detect_response E rs ps fl \<noteq> Inl (HTTPException c d)"
  using comprehension_not_http [of "encode_to_base64 E" c d rs, OF encode_to_base64_not_http]
        comprehension_not_http [of "encode_tensor_to_base64 E" c d rs, OF encode_tensor_not_http]
  by (auto simp: detect_response_def split: option.splits bool.splits sum.splits)

lemma unload_not_http: "unload E m \<noteq> (Inl (HTTPException c d), evs)"
  by (auto simp: unload_def call_def split: option.splits sum.splits)

lemma detect_run_not_http: "detect_run E m req \<noteq> (Inl (HTTPException c d), evs)"
  by (auto simp: detect_run_def Let_def detect_loop_not_http detect_response_not_http
        unload_not_http split: sum.splits option.splits prod.splits)

subsection \<open>The loop over the input images\<close>

lemma invoked_append: "invoked (xs @ ys) = invoked xs @ invoked ys"
  by (induction xs rule: invoked.induct) auto

lemma detect_image_Inr:
  "detect_image E m pm u lv x = (Inr out, evs) \<Longrightarrow>
     \<exists>img. to_base64_nparray E x = Inr img \<and> evs = [ToNparray x, Invoke m img]"
  by (auto simp: detect_image_def split: sum.splits prod.splits)

lemma detect_loop_ok:
  assumes "map (\<lambda>x. fst (detect_image E m pm u lv x)) xs = map Inr outs"
    and "str_contains ''openpose'' m \<Longrightarrow> PyNone \<notin> set (map (snd \<circ> snd) outs)"
  shows "detect_loop E m pm u lv xs rs ps fl =
           (Inr (rs @ map fst outs,
                 ps @ (if str_contains ''openpose'' m then map (snd \<circ> snd) outs else []),
                 if outs = [] then fl else Some (fst (snd (last outs)))),
            concat (map (\<lambda>x. snd (detect_image E m pm u lv x)) xs))"
  using assms
proof (induction xs arbitrary: outs rs ps fl)
  case Nil
  then show ?case by simp
next
  case (Cons x xs)
  from Cons.prems(1) obtain out outs' where outs: "outs = out # outs'"
    and hd: "fst (detect_image E m pm u lv x) = Inr out"
    and tl: "map (\<lambda>x. fst (detect_image E m pm u lv x)) xs = map Inr outs'"
    by (cases outs) auto
  obtain d f j where out: "out = (d, f, j)" by (cases out) auto
  from hd obtain evs where di: "detect_image E m pm u lv x = (Inr (d, f, j), evs)"
    unfolding out by (cases "detect_image E m pm u lv x") auto
  have nn: "str_contains ''openpose'' m \<Longrightarrow> PyNone \<notin> set (map (snd \<circ> snd) outs')"
    and j: "str_contains ''openpose'' m \<Longrightarrow> j \<noteq> PyNone"
    using Cons.prems(2) by (auto simp: outs out)
  note IH = Cons.IH [OF tl nn]
  show ?case
  proof (cases "str_contains ''openpose'' m")
    case True
    then show ?thesis
      using j IH [of "rs @ [d]" "ps @ [j]" "Some f"]
      by (simp add: di outs out)
  next
    case False
    then show ?thesis
      using IH [of "rs @ [d]" ps "Some f"]
      by (simp add: di outs out)
  qed
qed

lemma detect_loop_Inr:
  assumes "detect_loop E m pm u lv xs rs ps fl = (Inr st, evs)"
  shows "\<exists>outs. map (\<lambda>x. fst (detect_image E m pm u lv x)) xs = map Inr outs
           \<and> (str_contains ''openpose'' m \<longrightarrow> PyNone \<notin> set (map (snd \<circ> snd) outs))"
  using assms
proof (induction xs arbitrary: rs ps fl st evs)
  case Nil
  then show ?case by simp
next
  case (Cons x xs)
  obtain r evs0 where di: "detect_image E m pm u lv x = (r, evs0)"
    by (cases "detect_image E m pm u lv x") auto
  with Cons.prems obtain d f j where r: "r = Inr (d, f, j)"
    by (cases r) auto
  have j: "str_contains ''openpose'' m \<Longrightarrow> j \<noteq> PyNone"
    using Cons.prems by (auto simp: di r)
  obtain rs' ps' st' evs' where
    rest: "detect_loop E m pm u lv xs rs' ps' (Some f) = (Inr st', evs')"
    using Cons.prems by (auto simp: di r split: if_splits prod.splits)
  from Cons.IH [OF rest] obtain outs where
    o: "map (\<lambda>x. fst (detect_image E m pm u lv x)) xs = map Inr outs"
      "str_contains ''openpose'' m \<longrightarrow> PyNone \<notin> set (map (snd \<circ> snd) outs)"
    by blast
  show ?case
    by (rule exI [of _ "(d, f, j) # outs"]) (use o j in \<open>auto simp: di r\<close>)
qed

lemma comprehension_all2:
  "comprehension f xs = Inr ys \<Longrightarrow> list_all2 (\<lambda>x y. f x = Inr y) xs ys"
  by (induction xs arbitrary: ys) (auto split: sum.splits)

lemma invoked_detect_images:
  assumes "map (\<lambda>x. fst (detect_image E m pm u lv x)) xs = map Inr outs"
  shows "list_all2 (\<lambda>x c. fst c = m \<and> to_base64_nparray E x = Inr (snd c)) xs
           (invoked (concat (map (\<lambda>x. snd (detect_image E m pm u lv x)) xs)))"
  using assms
proof (induction xs arbitrary: outs)
  case Nil
  then show ?case by simp
next
  case (Cons x xs)
  from Cons.prems obtain out outs' where
    hd: "fst (detect_image E m pm u lv x) = Inr out"
    and tl: "map (\<lambda>x. fst (detect_image E m pm u lv x)) xs = map Inr outs'"
    by (cases outs) auto
  from hd obtain evs where "detect_image E m pm u lv x = (Inr out, evs)"
    by (cases "detect_image E m pm u lv x") auto
  from detect_image_Inr [OF this] this obtain img where
    "to_base64_nparray E x = Inr img"
    "snd (detect_image E m pm u lv x) = [ToNparray x, Invoke m img]"
    by auto
  then show ?case
    using Cons.IH [OF tl] by (simp add: invoked_append)
qed

lemma unload_events: "invoked (snd (unload E m)) = []"
  by (simp add: unload_def split: option.splits)

lemma detect_ok:
  assumes m: "m = resolved_module E req"
    and pm: "cached_cn_preprocessors E m = Some pm"
    and sup: "m \<notin> set unsupported_modules"
    and ne: "controlnet_input_images req \<noteq> []"
    and bc: "bound_check_params E (make_unit m req) = Inr unit"
    and outs: "map (\<lambda>x. fst (detect_image E m pm unit (low_vram req) x))
                 (controlnet_input_images req) = map Inr outs"
    and js: "str_contains ''openpose'' m \<Longrightarrow> PyNone \<notin> set (map (snd \<circ> snd) outs)"
    and un: "fst (unload E m) = Inr ()"
  shows "detect E req =
           (detect_response E (map fst outs)
              (if str_contains ''openpose'' m then map (snd \<circ> snd) outs else [])
              (Some (fst (snd (last outs)))),
            prepare_events m req
            @ concat (map (\<lambda>x. snd (detect_image E m pm unit (low_vram req) x))
                        (controlnet_input_images req))
            @ snd (unload E m))"
proof -
  from outs ne have "outs \<noteq> []" by auto
  with detect_loop_ok [OF outs js, of "[]" "[]" None]
  have loop: "detect_loop E m pm unit (low_vram req) (controlnet_input_images req) [] [] None =
      (Inr (map fst outs,
            if str_contains ''openpose'' m then map (snd \<circ> snd) outs else [],
            Some (fst (snd (last outs)))),
       concat (map (\<lambda>x. snd (detect_image E m pm unit (low_vram req) x))
                 (controlnet_input_images req)))"
    by simp
  obtain evs2 where u: "unload E m = (Inr (), evs2)"
    using un by (cases "unload E m") auto
  have "detect E req = detect_run E m req"
    using m pm sup ne by (simp add: detect_def Let_def)
  then show ?thesis
    by (simp add: detect_run_def bc pm loop u)
qed

subsection \<open>Validation of a detect request\<close>

text \<open>
  C1. The detect handler raises \<open>HTTPException(422)\<close> exactly when the module name, after
  alias resolution, is not a key of the cached preprocessors, or is one of
  \<open>clip_vision\<close>, \<open>revision_clipvision\<close>, \<open>revision_ignore_prompt\<close>, or the list of input
  images is empty. So an empty image list gives 422 whatever the other fields are, an
  excluded module gives 422 whatever the other fields are, and no other condition on the
  request makes the handler raise a 422. (An exception that escapes from a collaborator is
  \<open>Propagated\<close>, not an \<open>HTTPException\<close> of the handler.)
\<close>

theorem detect_422_iff:
  "(\<exists>detail. fst (detect E req) = Inl (HTTPException 422 detail)) \<longleftrightarrow>
     (cached_cn_preprocessors E (resolved_module E req) = None
      \<or> resolved_module E req \<in> set unsupported_modules
      \<or> controlnet_input_images req = [])"
  by (auto simp: detect_def Let_def) (metis detect_run_not_http prod.collapse)

text \<open>The excluded module \<open>clip_vision\<close> is in the example registry and is still refused.\<close>

theorem detect_422_iff_witness:
  "\<exists>detail. fst (detect example_env (example_request ''clip_vision'' [''a''])) =
      Inl (HTTPException 422 detail)"
  using detect_422_iff [of example_env "example_request ''clip_vision'' [''a'']"]
  by (simp add: resolved_module_def unsupported_modules_def example_env_def
        example_request_def)

text \<open>
  C8. When the detect handler raises \<open>HTTPException(422)\<close> it has had no effect: no
  parameter object was constructed or bound-checked, no input image was decoded, the
  preprocessor was not invoked and the unload hook was not called (the list of events is
  empty).
\<close>

theorem detect_422_no_effect:
  "fst (detect E req) = Inl (HTTPException 422 detail) \<Longrightarrow> snd (detect E req) = []"
  by (auto simp: detect_def Let_def split: if_splits) (metis detect_run_not_http prod.collapse)

theorem detect_422_no_effect_witness:
  "fst (detect example_env (example_request ''canny'' [])) =
     Inl (HTTPException 422 ''No image selected'')
   \<and> snd (detect example_env (example_request ''canny'' [])) = []"
proof -
  have h: "fst (detect example_env (example_request ''canny'' [])) =
             Inl (HTTPException 422 ''No image selected'')"
    by (simp add: ex_defs api_defs)
  from h detect_422_no_effect [OF h] show ?thesis by simp
qed

subsection \<open>A detect request that passes validation\<close>

text \<open>
  C2, as stated, fails: a request can pass validation and still get no response, because
  an exception of the preprocessor is not caught. Here the request names two images and
  the preprocessor raises on the first: it is invoked once, and the handler ends with the
  preprocessor's exception.
\<close>

theorem detect_raising_detector:
  "cached_cn_preprocessors example_env
     (resolved_module example_env (example_request ''edges'' [''abc'', ''a''])) = Some example_canny
   \<and> resolved_module example_env (example_request ''edges'' [''abc'', ''a''])
       \<notin> set unsupported_modules
   \<and> length (controlnet_input_images (example_request ''edges'' [''abc'', ''a''])) = 2
   \<and> fst (detect example_env (example_request ''edges'' [''abc'', ''a''])) =
       Inl (Propagated ''RuntimeError'')
   \<and> invoked (snd (detect example_env (example_request ''edges'' [''abc'', ''a'']))) =
       [(''canny'', NDArray 3)]"
  by (simp add: ex_defs api_defs)

text \<open>
  C2, amended. For a detect request that passes validation with N input images, if no
  collaborator raises (the bound check, the decoding of each image, the preprocessor on
  each image, the unload hook, the encoder on each output) and, for a module whose name
  contains \<open>openpose\<close>, the preprocessor delivers a pose for every image, then: the
  preprocessor is invoked exactly once per input image, in input order, on the decoded
  image; the response has \<open>info\<close> \<open>Success\<close> and N encoded outputs in input order, under
  \<open>images\<close> (encoded by \<open>encode_to_base64\<close>, followed by \<open>poses\<close> when poses were collected)
  when the flag returned for the last image is true, and under \<open>tensor\<close> (encoded by
  \<open>encode_tensor_to_base64\<close>) when it is false.
\<close>

theorem detect_success:
  assumes "cached_cn_preprocessors E (resolved_module E req) = Some pm"
    and "resolved_module E req \<notin> set unsupported_modules"
    and "controlnet_input_images req \<noteq> []"
    and "bound_check_params E (make_unit (resolved_module E req) req) = Inr unit"
    and "map (\<lambda>x. fst (detect_image E (resolved_module E req) pm unit (low_vram req) x))
           (controlnet_input_images req) = map Inr outs"
    and "str_contains ''openpose'' (resolved_module E req)
           \<Longrightarrow> PyNone \<notin> set (map (snd \<circ> snd) outs)"
    and "fst (unload E (resolved_module E req)) = Inr ()"
    and "comprehension
           (if fst (snd (last outs)) then encode_to_base64 E else encode_tensor_to_base64 E)
           (map fst outs) = Inr strs"
  shows "fst (detect E req) =
           Inr ((''info'', JStr ''Success'') #
                (if fst (snd (last outs)) then
                   (''images'', JStrs strs) #
                   (if str_contains ''openpose'' (resolved_module E req)
                    then [(''poses'', JObjs (map (snd \<circ> snd) outs))] else [])
                 else [(''tensor'', JStrs strs)]))
         \<and> length strs = length (controlnet_input_images req)
         \<and> list_all2
              (\<lambda>out s. (if fst (snd (last outs)) then encode_to_base64 E
                         else encode_tensor_to_base64 E) (fst out) = Inr s) outs strs
         \<and> list_all2
              (\<lambda>x c. fst c = resolved_module E req \<and> to_base64_nparray E x = Inr (snd c))
              (controlnet_input_images req) (invoked (snd (detect E req)))"
proof -
  let ?m = "resolved_module E req"
  let ?enc = "if fst (snd (last outs)) then encode_to_base64 E else encode_tensor_to_base64 E"
  note ok = detect_ok [OF refl assms(1-7)]
  have len: "length outs = length (controlnet_input_images req)"
    using assms(5) by (metis length_map)
  then have ne: "outs \<noteq> []" using assms(3) by auto
  have all2: "list_all2 (\<lambda>x s. ?enc x = Inr s) (map fst outs) strs"
    by (rule comprehension_all2 [OF assms(8)])
  then have A: "list_all2 (\<lambda>out s. ?enc (fst out) = Inr s) outs strs"
    by (simp add: list_all2_map1)
  from A have B: "length strs = length (controlnet_input_images req)"
    using len by (auto dest: list_all2_lengthD)
  have C: "fst (detect E req) =
           Inr ((''info'', JStr ''Success'') #
                (if fst (snd (last outs)) then
                   (''images'', JStrs strs) #
                   (if str_contains ''openpose'' ?m
                    then [(''poses'', JObjs (map (snd \<circ> snd) outs))] else [])
                 else [(''tensor'', JStrs strs)]))"
    by (cases "fst (snd (last outs))")
      (use assms(8) ne in \<open>auto simp: ok detect_response_def\<close>)
  have D: "list_all2 (\<lambda>x c. fst c = ?m \<and> to_base64_nparray E x = Inr (snd c))
              (controlnet_input_images req) (invoked (snd (detect E req)))"
    using invoked_detect_images [OF assms(5)]
    by (simp add: ok invoked_append unload_events prepare_events_def)
  from C B A D show ?thesis by blast
qed

theorem detect_success_witness:
  "fst (detect example_env (example_request ''openpose'' [''a'', ''ab''])) =
     Inr [(''info'', JStr ''Success''), (''images'', JStrs [''A'', ''AA'']),
          (''poses'', JObjs [PyDict [(''people'', NDArray 1)], PyDict [(''people'', NDArray 2)]])]
   \<and> invoked (snd (detect example_env (example_request ''openpose'' [''a'', ''ab'']))) =
       [(''openpose'', NDArray 1), (''openpose'', NDArray 2)]"
proof -
  let ?req = "example_request ''openpose'' [''a'', ''ab'']"
  let ?unit = "\<lparr>module = ''openpose'', processor_res = 64, threshold_a = -1, threshold_b = -1\<rparr>"
  let ?outs = "[(NDArray 1, True, PyDict [(''people'', NDArray 1)]),
                (NDArray 2, True, PyDict [(''people'', NDArray 2)])]"
  have m: "resolved_module example_env ?req = ''openpose''"
    by (simp add: ex_defs api_defs)
  have 1: "cached_cn_preprocessors example_env (resolved_module example_env ?req)
             = Some example_openpose"
    by (simp add: m) (simp add: example_env_def)
  have 2: "resolved_module example_env ?req \<notin> set unsupported_modules"
    by (simp add: m unsupported_modules_def)
  have 3: "controlnet_input_images ?req \<noteq> []"
    by (simp add: example_request_def)
  have 4: "bound_check_params example_env (make_unit (resolved_module example_env ?req) ?req)
             = Inr ?unit"
    by (simp add: m) (simp add: ex_defs make_unit_def)
  have 5: "map (\<lambda>x. fst (detect_image example_env (resolved_module example_env ?req)
                   example_openpose ?unit (low_vram ?req) x))
             (controlnet_input_images ?req) = map Inr ?outs"
    by (simp add: m) (simp add: ex_defs detect_image_def JsonAcceptor_init_def accept_def)
  have 6: "str_contains ''openpose'' (resolved_module example_env ?req)
             \<Longrightarrow> PyNone \<notin> set (map (snd \<circ> snd) ?outs)"
    by simp
  have 7: "fst (unload example_env (resolved_module example_env ?req)) = Inr ()"
    by (simp add: m) (simp add: ex_defs unload_def call_def)
  have 8: "comprehension
             (if fst (snd (last ?outs)) then encode_to_base64 example_env
              else encode_tensor_to_base64 example_env)
             (map fst ?outs) = Inr [''A'', ''AA'']"
    by (simp add: ex_defs encode_np_to_base64_def call_def eval_nat_numeral)
  have o: "str_contains ''openpose'' ''openpose''" by simp
  note R = detect_success [OF 1 2 3 4 5 6 7 8]
  have A: "fst (detect example_env ?req) =
     Inr [(''info'', JStr ''Success''), (''images'', JStrs [''A'', ''AA'']),
          (''poses'', JObjs [PyDict [(''people'', NDArray 1)], PyDict [(''people'', NDArray 2)]])]"
    using R by (simp add: m)
  have imgs: "controlnet_input_images ?req = [''a'', ''ab'']"
    by (simp add: example_request_def)
  have d: "to_base64_nparray example_env ''a'' = Inr (NDArray 1)"
    "to_base64_nparray example_env ''ab'' = Inr (NDArray 2)"
    by (simp_all add: example_env_def example_to_base64_nparray_def)
  have "list_all2 (\<lambda>x c. fst c = ''openpose'' \<and> to_base64_nparray example_env x = Inr (snd c))
          [''a'', ''ab''] (invoked (snd (detect example_env ?req)))"
    using R by (simp add: m imgs)
  then have B: "invoked (snd (detect example_env ?req)) =
                  [(''openpose'', NDArray 1), (''openpose'', NDArray 2)]"
    by (auto simp: list_all2_Cons1 d prod_eq_iff)
  from A B show ?thesis by simp
qed

subsection \<open>Which encoding a detect response uses\<close>

lemma detect_loop_assertion:
  assumes "str_contains ''openpose'' m"
    and "map (\<lambda>x. fst (detect_image E m pm u lv x)) pre = map Inr outs"
    and "PyNone \<notin> set (map (snd \<circ> snd) outs)"
    and "fst (detect_image E m pm u lv x) = Inr (d, f, PyNone)"
  shows "fst (detect_loop E m pm u lv (pre @ x # post) rs ps fl) = Inl AssertionError"
  using assms(2,3)
proof (induction pre arbitrary: outs rs ps fl)
  case Nil
  obtain evs where "detect_image E m pm u lv x = (Inr (d, f, PyNone), evs)"
    using assms(4) by (cases "detect_image E m pm u lv x") auto
  then show ?case using assms(1) by simp
next
  case (Cons y pre)
  from Cons.prems(1) obtain out outs' where outs: "outs = out # outs'"
    and hd: "fst (detect_image E m pm u lv y) = Inr out"
    and tl: "map (\<lambda>x. fst (detect_image E m pm u lv x)) pre = map Inr outs'"
    by (cases outs) auto
  obtain d' f' j' where out: "out = (d', f', j')" by (cases out) auto
  from hd obtain evs where di: "detect_image E m pm u lv y = (Inr (d', f', j'), evs)"
    unfolding out by (cases "detect_image E m pm u lv y") auto
  have j: "j' \<noteq> PyNone" and nn: "PyNone \<notin> set (map (snd \<circ> snd) outs')"
    using Cons.prems(2) by (auto simp: outs out)
  from Cons.IH [OF tl nn, of "rs @ [d']" "ps @ [j']" "Some f'"]
  show ?case
    using assms(1) j by (auto simp: di split: prod.splits)
qed

lemma detect_returns:
  assumes "fst (detect E req) = Inr resp"
  shows "\<exists>pm unit outs.
           cached_cn_preprocessors E (resolved_module E req) = Some pm
         \<and> bound_check_params E (make_unit (resolved_module E req) req) = Inr unit
         \<and> map (\<lambda>x. fst (detect_image E (resolved_module E req) pm unit (low_vram req) x))
               (controlnet_input_images req) = map Inr outs
         \<and> outs \<noteq> []
         \<and> detect_response E (map fst outs)
              (if str_contains ''openpose'' (resolved_module E req)
               then map (snd \<circ> snd) outs else [])
              (Some (fst (snd (last outs)))) = Inr resp"
proof -
  let ?m = "resolved_module E req"
  from assms have ne: "controlnet_input_images req \<noteq> []"
    and run: "fst (detect_run E ?m req) = Inr resp"
    by (auto simp: detect_def Let_def split: if_splits)
  from run obtain unit where bc: "bound_check_params E (make_unit ?m req) = Inr unit"
    by (cases "bound_check_params E (make_unit ?m req)") (auto simp: detect_run_def)
  from run bc obtain pm where pm: "cached_cn_preprocessors E ?m = Some pm"
    by (cases "cached_cn_preprocessors E ?m") (auto simp: detect_run_def)
  obtain r evs where loop: "detect_loop E ?m pm unit (low_vram req)
      (controlnet_input_images req) [] [] None = (r, evs)"
    by (cases "detect_loop E ?m pm unit (low_vram req) (controlnet_input_images req) [] [] None")
      auto
  from run bc pm loop obtain st where r: "r = Inr st"
    by (cases r) (auto simp: detect_run_def)
  from detect_loop_Inr [OF loop [unfolded r]] obtain outs where
    outs: "map (\<lambda>x. fst (detect_image E ?m pm unit (low_vram req) x))
             (controlnet_input_images req) = map Inr outs"
    and js: "str_contains ''openpose'' ?m \<longrightarrow> PyNone \<notin> set (map (snd \<circ> snd) outs)"
    by blast
  from outs ne have one: "outs \<noteq> []" by auto
  from detect_loop_ok [OF outs, of "[]" "[]" None] js one loop r
  have st: "st = (map fst outs,
                  if str_contains ''openpose'' ?m then map (snd \<circ> snd) outs else [],
                  Some (fst (snd (last outs))))"
    by simp
  obtain r2 evs2 where u: "unload E ?m = (r2, evs2)"
    by (cases "unload E ?m") auto
  from run bc pm loop r st u
  have "detect_response E (map fst outs)
              (if str_contains ''openpose'' ?m then map (snd \<circ> snd) outs else [])
              (Some (fst (snd (last outs)))) = Inr resp"
    by (cases r2) (auto simp: detect_run_def)
  with pm bc outs one show ?thesis by blast
qed

text \<open>
  C10. Whenever the detect handler returns a response, the flag that the preprocessor
  returned for the last input image alone decides the encoding: if it is true, the
  outputs of all images, the earlier ones too, are encoded by \<open>encode_to_base64\<close> under
  \<open>images\<close> and there is no \<open>tensor\<close> key; if it is false, the outputs of all images are
  encoded by \<open>encode_tensor_to_base64\<close> under \<open>tensor\<close> and there is no \<open>images\<close> key. The
  flags of the earlier images do not occur in the statement.
\<close>

theorem detect_encoding_by_last_flag:
  assumes "fst (detect E req) = Inr resp"
  shows "\<exists>pm unit outs strs.
           cached_cn_preprocessors E (resolved_module E req) = Some pm
         \<and> bound_check_params E (make_unit (resolved_module E req) req) = Inr unit
         \<and> map (\<lambda>x. fst (detect_image E (resolved_module E req) pm unit (low_vram req) x))
               (controlnet_input_images req) = map Inr outs
         \<and> (if fst (snd (last outs))
             then comprehension (encode_to_base64 E) (map fst outs) = Inr strs
                  \<and> map_of resp ''images'' = Some (JStrs strs)
                  \<and> map_of resp ''tensor'' = None
             else comprehension (encode_tensor_to_base64 E) (map fst outs) = Inr strs
                  \<and> map_of resp ''tensor'' = Some (JStrs strs)
                  \<and> map_of resp ''images'' = None)"
proof -
  from detect_returns [OF assms] obtain pm unit outs where
    a: "cached_cn_preprocessors E (resolved_module E req) = Some pm"
      "bound_check_params E (make_unit (resolved_module E req) req) = Inr unit"
      "map (\<lambda>x. fst (detect_image E (resolved_module E req) pm unit (low_vram req) x))
               (controlnet_input_images req) = map Inr outs"
    and resp: "detect_response E (map fst outs)
              (if str_contains ''openpose'' (resolved_module E req)
               then map (snd \<circ> snd) outs else [])
              (Some (fst (snd (last outs)))) = Inr resp"
    by blast
  have "\<exists>strs. if fst (snd (last outs))
             then comprehension (encode_to_base64 E) (map fst outs) = Inr strs
                  \<and> map_of resp ''images'' = Some (JStrs strs)
                  \<and> map_of resp ''tensor'' = None
             else comprehension (encode_tensor_to_base64 E) (map fst outs) = Inr strs
                  \<and> map_of resp ''tensor'' = Some (JStrs strs)
                  \<and> map_of resp ''images'' = None"
    using resp
    by (cases "fst (snd (last outs))")
      (auto simp: detect_response_def split: sum.splits if_splits)
  with a show ?thesis by blast
qed

text \<open>
  The preprocessor \<open>mixed\<close> returns an image-like flag for the first image and a
  tensor-like flag for the second: both outputs are serialized as tensors.
\<close>

theorem detect_encoding_by_last_flag_witness:
  "fst (detect example_env (example_request ''mixed'' [''a'', ''ab''])) =
     Inr [(''info'', JStr ''Success''), (''tensor'', JStrs [''QQ=Q='', ''QQ=QQ=''])]
   \<and> (\<exists>outs strs.
         map (\<lambda>x. fst (detect_image example_env ''mixed'' example_mixed
                     \<lparr>module = ''mixed'', processor_res = 64, threshold_a = -1, threshold_b = -1\<rparr>
                     False x)) [''a'', ''ab''] = map Inr outs
       \<and> map (fst \<circ> snd) outs = [True, False]
       \<and> comprehension (encode_tensor_to_base64 example_env) (map fst outs) = Inr strs
       \<and> map_of [(''info'', JStr ''Success''), (''tensor'', JStrs [''QQ=Q='', ''QQ=QQ=''])]
            ''tensor'' = Some (JStrs strs))"
proof -
  let ?req = "example_request ''mixed'' [''a'', ''ab'']"
  let ?resp = "[(''info'', JStr ''Success''), (''tensor'', JStrs [''QQ=Q='', ''QQ=QQ=''])]"
  let ?unit = "\<lparr>module = ''mixed'', processor_res = 64, threshold_a = -1, threshold_b = -1\<rparr>"
  have h: "fst (detect example_env ?req) = Inr ?resp"
    by (simp add: ex_defs api_defs eval_nat_numeral)
  have m: "resolved_module example_env ?req = ''mixed''"
    by (simp add: ex_defs api_defs)
  have c: "cached_cn_preprocessors example_env ''mixed'' = Some example_mixed"
    by (simp add: example_env_def)
  have b: "bound_check_params example_env (make_unit ''mixed'' ?req) = Inr ?unit"
    by (simp add: ex_defs make_unit_def)
  have i: "controlnet_input_images ?req = [''a'', ''ab'']" "low_vram ?req = False"
    by (simp_all add: example_request_def)
  have o: "map (\<lambda>x. fst (detect_image example_env ''mixed'' example_mixed ?unit False x))
             [''a'', ''ab''] = map Inr [(NDArray 1, True, PyNone), (NDArray 2, False, PyNone)]"
    by (simp add: ex_defs detect_image_def JsonAcceptor_init_def)
  from detect_encoding_by_last_flag [OF h] obtain pm unit outs strs where
    r: "cached_cn_preprocessors example_env ''mixed'' = Some pm"
      "bound_check_params example_env (make_unit ''mixed'' ?req) = Inr unit"
      "map (\<lambda>x. fst (detect_image example_env ''mixed'' pm unit False x)) [''a'', ''ab'']
         = map Inr outs"
      "if fst (snd (last outs))
       then comprehension (encode_to_base64 example_env) (map fst outs) = Inr strs
            \<and> map_of ?resp ''images'' = Some (JStrs strs) \<and> map_of ?resp ''tensor'' = None
       else comprehension (encode_tensor_to_base64 example_env) (map fst outs) = Inr strs
            \<and> map_of ?resp ''tensor'' = Some (JStrs strs) \<and> map_of ?resp ''images'' = None"
    unfolding m i by blast
  from r(1) c have pm: "pm = example_mixed" by simp
  from r(2) b have unit: "unit = ?unit" by simp
  from r(3) o have "map Inr outs =
      (map Inr [(NDArray 1, True, PyNone), (NDArray 2, False, PyNone)]
        :: (exn + pyobj \<times> bool \<times> pyobj) list)"
    unfolding pm unit by simp
  then have outs: "outs = [(NDArray 1, True, PyNone), (NDArray 2, False, PyNone)]"
    by (simp only: inj_map_eq_map [OF inj_Inr])
  from r(4) have "comprehension (encode_tensor_to_base64 example_env) (map fst outs) = Inr strs
      \<and> map_of ?resp ''tensor'' = Some (JStrs strs)"
    unfolding outs by simp
  with r(3) h show ?thesis
    unfolding pm unit outs by (intro conjI exI [of _ "[(NDArray 1, True, PyNone), (NDArray 2, False, PyNone)]"] exI [of _ strs]) simp_all
qed

subsection \<open>Poses in a detect response\<close>

lemma detect_response_poses:
  assumes "detect_response E rs ps fl = Inr resp"
  shows "map_of resp ''poses'' =
           (if fl = Some True \<and> ps \<noteq> [] then Some (JObjs ps) else None)"
  using assms
  by (auto simp: detect_response_def split: option.splits bool.splits sum.splits if_splits)

text \<open>
  C9, as stated, fails: a preprocessor whose name contains \<open>openpose\<close> delivers a pose for
  each of two images and returns a tensor-like flag; the response has the key \<open>tensor\<close> and
  no \<open>poses\<close>, because poses are attached in the image branch only.
\<close>

theorem detect_openpose_tensor_has_no_poses:
  "str_contains ''openpose''
     (resolved_module example_env (example_request ''openpose_embed'' [''a'', ''ab'']))
   \<and> map (\<lambda>x. fst (detect_image example_env ''openpose_embed'' example_openpose_embed
                  \<lparr>module = ''openpose_embed'', processor_res = 64,
                   threshold_a = -1, threshold_b = -1\<rparr> False x)) [''a'', ''ab''] =
       map Inr [(Tensor 7, False, PyDict [(''people'', NDArray 1)]),
                (Tensor 7, False, PyDict [(''people'', NDArray 2)])]
   \<and> fst (detect example_env (example_request ''openpose_embed'' [''a'', ''ab''])) =
       Inr [(''info'', JStr ''Success''), (''tensor'', JStrs [''Q=QQQQQQQ='', ''Q=QQQQQQQ=''])]
   \<and> map_of [(''info'', JStr ''Success''), (''tensor'', JStrs [''Q=QQQQQQQ='', ''Q=QQQQQQQ=''])]
        ''poses'' = None"
  by (simp add: ex_defs api_defs eval_nat_numeral)

text \<open>
  C9, amended. For a detect request that passes validation and whose module name
  contains \<open>openpose\<close>: if every image before some image \<open>x\<close> is decoded and processed
  with a pose delivered, and the preprocessor returns for \<open>x\<close> without having delivered
  a pose, the handler raises \<open>AssertionError\<close>; and if the handler returns a response, then
  when the flag of the last image is image-like its \<open>poses\<close> list has exactly one entry per
  input image, in input order (the value last given to the callback for that image), and
  when that flag is tensor-like it has no \<open>poses\<close> key. A response for a module whose name
  does not contain \<open>openpose\<close> never has a \<open>poses\<close> key.
\<close>

theorem detect_poses:
  "(str_contains ''openpose'' (resolved_module E req)
      \<and> cached_cn_preprocessors E (resolved_module E req) = Some pm
      \<and> resolved_module E req \<notin> set unsupported_modules
      \<and> bound_check_params E (make_unit (resolved_module E req) req) = Inr unit
      \<and> controlnet_input_images req = pre @ x # post
      \<and> map (\<lambda>x. fst (detect_image E (resolved_module E req) pm unit (low_vram req) x)) pre
          = map Inr outs
      \<and> PyNone \<notin> set (map (snd \<circ> snd) outs)
      \<and> fst (detect_image E (resolved_module E req) pm unit (low_vram req) x)
          = Inr (d, f, PyNone)
    \<longrightarrow> fst (detect E req) = Inl AssertionError)
   \<and> (str_contains ''openpose'' (resolved_module E req)
      \<and> cached_cn_preprocessors E (resolved_module E req) = Some pm
      \<and> bound_check_params E (make_unit (resolved_module E req) req) = Inr unit
      \<and> map (\<lambda>x. fst (detect_image E (resolved_module E req) pm unit (low_vram req) x))
            (controlnet_input_images req) = map Inr outs'
      \<and> fst (detect E req) = Inr resp
    \<longrightarrow> map_of resp ''poses'' =
          (if fst (snd (last outs')) then Some (JObjs (map (snd \<circ> snd) outs')) else None)
        \<and> length (map (snd \<circ> snd) outs') = length (controlnet_input_images req))
   \<and> (\<not> str_contains ''openpose'' (resolved_module E req) \<and> fst (detect E req) = Inr resp'
    \<longrightarrow> map_of resp' ''poses'' = None)"
proof (intro conjI impI)
  let ?m = "resolved_module E req"
  assume a: "str_contains ''openpose'' ?m
      \<and> cached_cn_preprocessors E ?m = Some pm
      \<and> ?m \<notin> set unsupported_modules
      \<and> bound_check_params E (make_unit ?m req) = Inr unit
      \<and> controlnet_input_images req = pre @ x # post
      \<and> map (\<lambda>x. fst (detect_image E ?m pm unit (low_vram req) x)) pre = map Inr outs
      \<and> PyNone \<notin> set (map (snd \<circ> snd) outs)
      \<and> fst (detect_image E ?m pm unit (low_vram req) x) = Inr (d, f, PyNone)"
  then have loop: "fst (detect_loop E ?m pm unit (low_vram req) (pre @ x # post) [] [] None)
      = Inl AssertionError"
    by (intro detect_loop_assertion [where outs = outs and d = d and f = f]) simp_all
  have "detect E req = detect_run E ?m req"
    using a by (simp add: detect_def Let_def)
  then show "fst (detect E req) = Inl AssertionError"
    using a loop by (auto simp: detect_run_def split: prod.splits sum.splits)
next
  let ?m = "resolved_module E req"
  assume b: "str_contains ''openpose'' ?m
      \<and> cached_cn_preprocessors E ?m = Some pm
      \<and> bound_check_params E (make_unit ?m req) = Inr unit
      \<and> map (\<lambda>x. fst (detect_image E ?m pm unit (low_vram req) x))
            (controlnet_input_images req) = map Inr outs'
      \<and> fst (detect E req) = Inr resp"
  then have r: "fst (detect E req) = Inr resp" by simp
  from detect_returns [OF r] obtain pm2 unit2 outs2 where
    c: "cached_cn_preprocessors E ?m = Some pm2"
      "bound_check_params E (make_unit ?m req) = Inr unit2"
      "map (\<lambda>x. fst (detect_image E ?m pm2 unit2 (low_vram req) x))
         (controlnet_input_images req) = map Inr outs2"
      "outs2 \<noteq> []"
      "detect_response E (map fst outs2)
         (if str_contains ''openpose'' ?m then map (snd \<circ> snd) outs2 else [])
         (Some (fst (snd (last outs2)))) = Inr resp"
    by blast
  from b c have "map Inr outs2 = (map Inr outs' :: (exn + pyobj \<times> bool \<times> pyobj) list)"
    by simp
  then have eq: "outs2 = outs'"
    by (simp only: inj_map_eq_map [OF inj_Inr])
  from detect_response_poses [OF c(5)] b c(4)
  show "map_of resp ''poses'' =
          (if fst (snd (last outs')) then Some (JObjs (map (snd \<circ> snd) outs')) else None)"
    by (simp add: eq)
  from b show "length (map (snd \<circ> snd) outs') = length (controlnet_input_images req)"
    by (metis length_map)
next
  let ?m = "resolved_module E req"
  assume n: "\<not> str_contains ''openpose'' ?m \<and> fst (detect E req) = Inr resp'"
  then have r: "fst (detect E req) = Inr resp'" by simp
  from detect_returns [OF r] obtain outs2 where
    "detect_response E (map fst outs2)
         (if str_contains ''openpose'' ?m then map (snd \<circ> snd) outs2 else [])
         (Some (fst (snd (last outs2)))) = Inr resp'"
    by blast
  from detect_response_poses [OF this] n
  show "map_of resp' ''poses'' = None" by simp
qed

theorem detect_poses_witness:
  "fst (detect example_env (example_request ''openpose'' [''a'', ''abc'', ''ab''])) =
     Inl AssertionError
   \<and> fst (detect example_env (example_request ''openpose'' [''a'', ''ab''])) =
       Inr [(''info'', JStr ''Success''), (''images'', JStrs [''A'', ''AA'']),
            (''poses'', JObjs [PyDict [(''people'', NDArray 1)],
                               PyDict [(''people'', NDArray 2)]])]
   \<and> map_of [(''info'', JStr ''Success''), (''images'', JStrs [''A'', ''AA'']),
              (''poses'', JObjs [PyDict [(''people'', NDArray 1)],
                                 PyDict [(''people'', NDArray 2)]])] ''poses'' =
       Some (JObjs [PyDict [(''people'', NDArray 1)], PyDict [(''people'', NDArray 2)]])
   \<and> fst (detect example_env (example_request ''canny'' [''a''])) =
       Inr [(''info'', JStr ''Success''), (''images'', JStrs [''A''])]
   \<and> map_of [(''info'', JStr ''Success''), (''images'', JStrs [''A''])] ''poses'' = None"
proof -
  let ?unit = "\<lparr>module = ''openpose'', processor_res = 64, threshold_a = -1, threshold_b = -1\<rparr>"
  let ?r3 = "example_request ''openpose'' [''a'', ''abc'', ''ab'']"
  let ?r2 = "example_request ''openpose'' [''a'', ''ab'']"
  let ?r1 = "example_request ''canny'' [''a'']"
  let ?resp2 = "[(''info'', JStr ''Success''), (''images'', JStrs [''A'', ''AA'']),
            (''poses'', JObjs [PyDict [(''people'', NDArray 1)],
                               PyDict [(''people'', NDArray 2)]])]"
  let ?resp1 = "[(''info'', JStr ''Success''), (''images'', JStrs [''A''])]"
  have m3: "resolved_module example_env ?r3 = ''openpose''"
    and m2: "resolved_module example_env ?r2 = ''openpose''"
    and m1: "resolved_module example_env ?r1 = ''canny''"
    by (simp_all add: ex_defs resolved_module_def)
  have o: "str_contains ''openpose'' ''openpose''" "\<not> str_contains ''openpose'' ''canny''"
    by simp_all
  have c: "cached_cn_preprocessors example_env ''openpose'' = Some example_openpose"
    by (simp add: example_env_def)
  have u: "''openpose'' \<notin> set unsupported_modules"
    by (simp add: unsupported_modules_def)
  have b3: "bound_check_params example_env (make_unit ''openpose'' ?r3) = Inr ?unit"
    and b2: "bound_check_params example_env (make_unit ''openpose'' ?r2) = Inr ?unit"
    by (simp_all add: ex_defs make_unit_def)
  have i3: "controlnet_input_images ?r3 = [''a''] @ ''abc'' # [''ab'']" "low_vram ?r3 = False"
    and i2: "controlnet_input_images ?r2 = [''a'', ''ab'']" "low_vram ?r2 = False"
    by (simp_all add: example_request_def)
  have d1: "map (\<lambda>x. fst (detect_image example_env ''openpose'' example_openpose ?unit False x))
              [''a''] = map Inr [(NDArray 1, True, PyDict [(''people'', NDArray 1)])]"
    and d2: "map (\<lambda>x. fst (detect_image example_env ''openpose'' example_openpose ?unit False x))
              [''a'', ''ab''] = map Inr [(NDArray 1, True, PyDict [(''people'', NDArray 1)]),
                                         (NDArray 2, True, PyDict [(''people'', NDArray 2)])]"
    and d3: "fst (detect_image example_env ''openpose'' example_openpose ?unit False ''abc'')
              = Inr (NDArray 3, True, PyNone)"
    by (simp_all add: ex_defs detect_image_def JsonAcceptor_init_def accept_def)
  have n: "PyNone \<notin> set (map (snd \<circ> snd) [(NDArray 1, True, PyDict [(''people'', NDArray 1)])])"
    by simp
  have h2: "fst (detect example_env ?r2) = Inr ?resp2"
    and h1: "fst (detect example_env ?r1) = Inr ?resp1"
    by (simp_all add: ex_defs api_defs eval_nat_numeral)
  have A: "fst (detect example_env ?r3) = Inl AssertionError"
    using detect_poses [of example_env ?r3 example_openpose ?unit "[''a'']" "''abc''" "[''ab'']"
        "[(NDArray 1, True, PyDict [(''people'', NDArray 1)])]" "NDArray 3" True,
        THEN conjunct1] o c u b3 i3 d1 d3 n
    unfolding m3 by simp
  have B: "map_of ?resp2 ''poses'' =
       Some (JObjs [PyDict [(''people'', NDArray 1)], PyDict [(''people'', NDArray 2)]])"
    using detect_poses [of example_env ?r2 example_openpose ?unit _ _ _ _ _ _
        "[(NDArray 1, True, PyDict [(''people'', NDArray 1)]),
          (NDArray 2, True, PyDict [(''people'', NDArray 2)])]" ?resp2,
        THEN conjunct2, THEN conjunct1] o c b2 i2 d2 h2
    unfolding m2 by simp
  have C: "map_of ?resp1 ''poses'' = None"
    using detect_poses [of example_env ?r1 _ _ _ _ _ _ _ _ _ _ ?resp1,
        THEN conjunct2, THEN conjunct2] o h1
    unfolding m1 by simp
  from A h2 B h1 C show ?thesis by simp
qed

subsection \<open>Rendering pose payloads\<close>

lemma render_pose_valid:
  assumes "valid_pose_payload E pose"
  shows "\<exists>s evs. render_pose E pose = (Inr s, evs)"
proof -
  from assms obtain poses animals H W where
    d: "decode_json_as_poses E pose = Inr (poses, animals, H, W)"
    by (cases "decode_json_as_poses E pose") (auto simp: valid_pose_payload_def)
  from assms d have ex: "poses = [] \<or> animals = []"
    by (simp add: valid_pose_payload_def)
  let ?routine = "if poses \<noteq> [] then draw_poses E poses H W
                  else draw_animalposes E animals H W"
  from assms d obtain canvas where c: "?routine = Inr canvas"
    by (cases ?routine) (auto simp: valid_pose_payload_def)
  from assms d c obtain s where s: "encode_to_base64 E canvas = Inr s"
    by (cases "encode_to_base64 E canvas") (auto simp: valid_pose_payload_def)
  have "fst (draw E poses animals H W) = Inr canvas"
    using ex c by (auto simp: draw_def call_def split: if_splits)
  then obtain evs where "draw E poses animals H W = (Inr canvas, evs)"
    by (cases "draw E poses animals H W") auto
  then have "render_pose E pose = (Inr s, evs)"
    by (simp add: render_pose_def d s)
  then show ?thesis by blast
qed

lemma render_poses_valid:
  assumes "\<forall>pose \<in> set pose_data. valid_pose_payload E pose"
  shows "\<exists>images evs. render_poses E pose_data = (Inr images, evs)
           \<and> list_all2 (\<lambda>pose s. fst (render_pose E pose) = Inr s) pose_data images"
  using assms
proof (induction pose_data)
  case Nil
  then show ?case by simp
next
  case (Cons pose rest)
  from Cons.prems render_pose_valid [of E pose] obtain s evs where
    p: "render_pose E pose = (Inr s, evs)" by auto
  from Cons obtain images evs' where
    r: "render_poses E rest = (Inr images, evs')"
      "list_all2 (\<lambda>pose s. fst (render_pose E pose) = Inr s) rest images"
    by auto
  show ?case by (simp add: p r)
qed

text \<open>
  C3. For a non-empty list of N valid pose payloads, \<open>render_openpose_json\<close> returns a
  response with \<open>info\<close> \<open>Success\<close> whose \<open>images\<close> field holds exactly N strings, the i-th
  being the encoded drawing of the i-th payload.
\<close>

theorem render_openpose_json_valid:
  assumes "pose_data \<noteq> []"
    and "\<forall>pose \<in> set pose_data. valid_pose_payload E pose"
  shows "\<exists>images.
           fst (render_openpose_json E pose_data) =
             Inr [(''images'', JStrs images), (''info'', JStr ''Success'')]
           \<and> length images = length pose_data
           \<and> list_all2 (\<lambda>pose s. fst (render_pose E pose) = Inr s) pose_data images"
proof -
  from render_poses_valid [OF assms(2)] obtain images evs where
    r: "render_poses E pose_data = (Inr images, evs)"
      "list_all2 (\<lambda>pose s. fst (render_pose E pose) = Inr s) pose_data images"
    by blast
  from r(2) have "length images = length pose_data"
    by (simp add: list_all2_lengthD)
  with r assms(1) show ?thesis
    by (simp add: render_openpose_json_def)
qed

theorem render_openpose_json_valid_witness:
  "fst (render_openpose_json example_env
          [example_pose [[1, 2, 3]], example_pose [[1, 2, 3, 4]], example_pose []]) =
     Inr [(''images'', JStrs [''A'', ''AAAAAAAAAAA'', ''AAAAAAAAAA'']), (''info'', JStr ''Success'')]"
proof -
  let ?ps = "[example_pose [[1, 2, 3]], example_pose [[1, 2, 3, 4]], example_pose []]"
  have 1: "?ps \<noteq> []" by simp
  have 2: "\<forall>pose \<in> set ?ps. valid_pose_payload example_env pose"
    by (simp add: valid_pose_payload_def ex_defs encode_np_to_base64_def call_def)
  have r: "fst (render_pose example_env (example_pose [[1, 2, 3]])) = Inr ''A''"
    "fst (render_pose example_env (example_pose [[1, 2, 3, 4]])) = Inr ''AAAAAAAAAAA''"
    "fst (render_pose example_env (example_pose [])) = Inr ''AAAAAAAAAA''"
    by (simp_all add: ex_defs api_defs eval_nat_numeral)
  from render_openpose_json_valid [OF 1 2] show ?thesis
    by (auto simp: list_all2_Cons1 r)
qed

text \<open>
  C4. Called with an empty list, \<open>render_openpose_json\<close> does not raise, draws nothing
  and returns the response whose only key is \<open>info\<close>, with the value
  \<open>No pose data detected.\<close>; the response has no \<open>images\<close> key.
\<close>

theorem render_openpose_json_empty:
  "render_openpose_json E [] = (Inr [(''info'', JStr ''No pose data detected.'')], [])
   \<and> map_of [(''info'', JStr ''No pose data detected.'')] ''images'' = None"
  by (simp add: render_openpose_json_def)

text \<open>
  C6, as stated, fails: for a payload that decodes to both a human and an animal pose the
  assertion fails before either drawing routine is called, so it is not true that exactly
  one of them is invoked for every payload.
\<close>

theorem render_mixed_payload_draws_nothing:
  "decode_json_as_poses example_env (example_pose [[1, 2, 3], [1, 2, 3, 4]]) =
     Inr ([PyObject 1], [PyObject 2], 768, 512)
   \<and> fst (render_pose example_env (example_pose [[1, 2, 3], [1, 2, 3, 4]])) = Inl AssertionError
   \<and> length (drawn (snd (render_pose example_env (example_pose [[1, 2, 3], [1, 2, 3, 4]])))) = 0"
  by (simp add: ex_defs api_defs)

text \<open>
  C6, amended. A payload whose decoded structure contains both human and animal poses
  makes \<open>render_openpose_json\<close> raise \<open>AssertionError\<close> (not an \<open>HTTPException\<close>), and neither
  drawing routine is invoked for it. For every decoded payload that does not mix the two,
  exactly one drawing routine is invoked: \<open>draw_poses\<close> when human poses are present,
  \<open>draw_animalposes\<close> otherwise.
\<close>

theorem render_pose_routine:
  assumes "decode_json_as_poses E pose = Inr (poses, animals, H, W)"
  shows "(poses \<noteq> [] \<and> animals \<noteq> [] \<longrightarrow>
            render_pose E pose = (Inl AssertionError, [])
            \<and> render_openpose_json E [pose] = (Inl AssertionError, []))
       \<and> (poses \<noteq> [] \<and> animals = [] \<longrightarrow>
            snd (render_pose E pose) = [DrawPoses poses H W])
       \<and> (poses = [] \<longrightarrow>
            snd (render_pose E pose) = [DrawAnimalposes animals H W])"
  using assms
  by (auto simp: render_pose_def render_openpose_json_def draw_def split: prod.splits sum.splits)

theorem render_pose_routine_witness:
  "render_openpose_json example_env [example_pose [[1, 2, 3], [1, 2, 3, 4]]] =
     (Inl AssertionError, [])
   \<and> snd (render_pose example_env (example_pose [[1, 2, 3]])) =
       [DrawPoses [PyObject 1] 768 512]
   \<and> snd (render_pose example_env (example_pose [[1, 2, 3, 4]])) =
       [DrawAnimalposes [PyObject 2] 768 512]"
proof -
  have 1: "decode_json_as_poses example_env (example_pose [[1, 2, 3], [1, 2, 3, 4]]) =
             Inr ([PyObject 1], [PyObject 2], 768, 512)"
    and 2: "decode_json_as_poses example_env (example_pose [[1, 2, 3]]) =
             Inr ([PyObject 1], [], 768, 512)"
    and 3: "decode_json_as_poses example_env (example_pose [[1, 2, 3, 4]]) =
             Inr ([], [PyObject 2], 768, 512)"
    by (simp_all add: ex_defs)
  from render_pose_routine [OF 1] render_pose_routine [OF 2] render_pose_routine [OF 3]
  show ?thesis by simp
qed

subsection \<open>The image encoder\<close>

text \<open>
  C5, as stated, fails: \<open>encode_to_base64\<close> can raise. An array goes through
  \<open>Image.fromarray\<close>, which is not guarded; Pillow rejects, for one, an array of four
  dimensions, and in the example registry the array numbered 0.
\<close>

theorem encode_to_base64_raises:
  "encode_to_base64 example_env (NDArray 0) = Inl (Propagated ''TypeError'')"
  by (simp add: ex_defs encode_np_to_base64_def call_def)

text \<open>
  C5, amended. \<open>encode_to_base64\<close> returns a string unchanged, and returns the empty
  string for an input that is neither a string, a PIL image nor an array, in both cases
  without raising. A PIL image is handed to the host's \<open>encode_pil_to_base64\<close>, an array to
  \<open>Image.fromarray\<close> and then to \<open>encode_pil_to_base64\<close>; the string they produce is
  returned and an exception they raise propagates. So the function returns a string for
  every input provided these two collaborators do not raise.
\<close>

theorem encode_to_base64_cases:
  "encode_to_base64 E (PyStr s) = Inr s
   \<and> ((\<forall>s. v \<noteq> PyStr s) \<and> (\<forall>i. v \<noteq> PILImage i) \<and> (\<forall>a. v \<noteq> NDArray a)
        \<longrightarrow> encode_to_base64 E v = Inr '''')
   \<and> encode_to_base64 E (PILImage i) = call (encode_pil_to_base64 E i)
   \<and> encode_to_base64 E (NDArray a) =
        (case Image_fromarray E a of
           Inl e \<Rightarrow> Inl (Propagated e)
         | Inr pil \<Rightarrow> call (encode_pil_to_base64 E pil))
   \<and> ((\<forall>i. \<exists>s. encode_pil_to_base64 E i = Inr s) \<and> (\<forall>a. \<exists>pil. Image_fromarray E a = Inr pil)
        \<longrightarrow> (\<exists>s. encode_to_base64 E w = Inr s))"
proof -
  have A: "(\<forall>s. v \<noteq> PyStr s) \<and> (\<forall>i. v \<noteq> PILImage i) \<and> (\<forall>a. v \<noteq> NDArray a)
        \<longrightarrow> encode_to_base64 E v = Inr ''''"
    by (cases v) auto
  have B: "encode_to_base64 E (NDArray a) =
        (case Image_fromarray E a of
           Inl e \<Rightarrow> Inl (Propagated e)
         | Inr pil \<Rightarrow> call (encode_pil_to_base64 E pil))"
    by (simp add: encode_np_to_base64_def call_def split: sum.splits)
  have C: "(\<forall>i. \<exists>s. encode_pil_to_base64 E i = Inr s) \<and> (\<forall>a. \<exists>pil. Image_fromarray E a = Inr pil)
        \<longrightarrow> (\<exists>s. encode_to_base64 E w = Inr s)"
  proof
    assume h: "(\<forall>i. \<exists>s. encode_pil_to_base64 E i = Inr s)
               \<and> (\<forall>a. \<exists>pil. Image_fromarray E a = Inr pil)"
    show "\<exists>s. encode_to_base64 E w = Inr s"
    proof (cases w)
      case (PILImage i)
      with h obtain s where "encode_pil_to_base64 E i = Inr s" by blast
      with PILImage show ?thesis by (simp add: call_def)
    next
      case (NDArray a)
      with h obtain pil where p: "Image_fromarray E a = Inr pil" by blast
      with h obtain s where "encode_pil_to_base64 E pil = Inr s" by blast
      with p NDArray show ?thesis by (simp add: encode_np_to_base64_def call_def)
    qed auto
  qed
  from A B C show ?thesis by simp
qed

theorem encode_to_base64_cases_witness:
  "encode_to_base64 (example_env\<lparr>Image_fromarray := Inr\<rparr>) PyNone = Inr ''''
   \<and> (\<exists>s. encode_to_base64 (example_env\<lparr>Image_fromarray := Inr\<rparr>) (NDArray 0) = Inr s)"
proof -
  let ?E = "example_env\<lparr>Image_fromarray := Inr\<rparr>"
  have 1: "(\<forall>s. PyNone \<noteq> PyStr s) \<and> (\<forall>i. PyNone \<noteq> PILImage i) \<and> (\<forall>a. PyNone \<noteq> NDArray a)"
    by simp
  have 2: "(\<forall>i. \<exists>s. encode_pil_to_base64 ?E i = Inr s)
           \<and> (\<forall>a. \<exists>pil. Image_fromarray ?E a = Inr pil)"
    by (simp add: example_env_def example_encode_pil_def)
  from encode_to_base64_cases [of ?E _ PyNone _ _ "NDArray 0"] 1 2
  show ?thesis by blast
qed

end
